theory Spec2Isabelle
  imports Complex_Main "HOL-Library.AList"
begin

section \<open>Vehicle damage detection: report aggregation and bounding-box conversion\<close>

text \<open>
  A shallow embedding of the two deterministic pieces of the application:
  \<^item> \<^verbatim>\<open>DamageDetector.assess_severity\<close> and \<^verbatim>\<open>DamageDetector.generate_report\<close>
    of \<^verbatim>\<open>vehicle_detection/inference.py\<close>;
  \<^item> \<^verbatim>\<open>VehiDEToYOLO.convert_bbox_to_yolo\<close> of \<^verbatim>\<open>vehicle_detection/convert_to_yolo.py\<close>.

  Python floats are modelled by exact reals: rounding, infinities and NaN are outside the
  model. Python integers are \<open>int\<close>. Exceptions are values of \<open>py_error\<close>, returned
  on the left of a sum.
\<close>

subsection \<open>Errors and arithmetic\<close>

datatype py_error = ZeroDivisionError | KeyError | ValueError

text \<open>Python's true division \<^verbatim>\<open>a / b\<close>: raises when the divisor is zero.\<close>

definition py_truediv :: "real \<Rightarrow> real \<Rightarrow> py_error + real" where
  "py_truediv a b = (if b = 0 then Inl ZeroDivisionError else Inr (a / b))"

subsection \<open>Dictionaries with insertion order\<close>

text \<open>
  A Python \<^verbatim>\<open>dict\<close> is an association list in insertion order. Assigning to a key
  that is present replaces its value in place, assigning to a new key appends the entry
  (\<open>AList.update\<close>); reading a missing key raises \<^verbatim>\<open>KeyError\<close>.
\<close>

type_synonym ('k, 'v) py_dict = "('k \<times> 'v) list"

definition dict_contains :: "'k \<Rightarrow> ('k, 'v) py_dict \<Rightarrow> bool" where
  "dict_contains k d = (k \<in> set (map fst d))"

definition dict_getitem :: "('k, 'v) py_dict \<Rightarrow> 'k \<Rightarrow> py_error + 'v" where
  "dict_getitem d k = (case map_of d k of None \<Rightarrow> Inl KeyError | Some v \<Rightarrow> Inr v)"

definition dict_setitem :: "('k, 'v) py_dict \<Rightarrow> 'k \<Rightarrow> 'v \<Rightarrow> ('k, 'v) py_dict" where
  "dict_setitem d k v = AList.update k v d"

subsection \<open>Detections and the store of list objects\<close>

text \<open>
  One detection, as \<^verbatim>\<open>detect_damage\<close> builds it: the keys \<^verbatim>\<open>'type'\<close>,
  \<^verbatim>\<open>'confidence'\<close>, \<^verbatim>\<open>'bbox'\<close> (field \<open>bbox_px\<close>, the pixel corners) and
  \<^verbatim>\<open>'bbox_formatted'\<close> (the integer corners \<open>(x1, y1, x2, y2)\<close>). The report's key
  \<^verbatim>\<open>'image'\<close> is the field \<open>image_name\<close>.
\<close>

record detection =
  type :: string
  confidence :: real
  bbox_px :: "real list"
  bbox_formatted :: "int \<times> int \<times> int \<times> int"

text \<open>
  The argument \<^verbatim>\<open>damages\<close> is a reference to a mutable list object, and the report
  keeps that reference. The store maps the address of a list object to its contents.
\<close>

type_synonym addr = nat

type_synonym store = "addr \<Rightarrow> detection list"

record report =
  image_name :: string
  total_damages :: int
  damage_summary :: "(string, int) py_dict"
  detailed_damages :: addr
  severity_assessment :: string

subsection \<open>\<^verbatim>\<open>assess_severity\<close>\<close>

definition severe_damages :: "string list" where
  "severe_damages = [''broken_part'', ''glass_damage'', ''crack'']"

text \<open>
  \<^verbatim>\<open>
  if not damages: return "No damage detected"
  total_damages = len(damages)
  avg_confidence = sum(d['confidence'] for d in damages) / total_damages
  severe_damages = ['broken_part', 'glass_damage', 'crack']
  severe_count = sum(1 for d in damages if d['type'] in severe_damages)
  if severe_count >= 3 or total_damages >= 5: return "Severe"
  elif severe_count >= 1 or total_damages >= 3: return "Moderate"
  elif total_damages >= 1: return "Minor"
  else: return "No damage"
  \<close>
  The average confidence is computed (its division can raise) and then not used.
\<close>

definition assess_severity :: "detection list \<Rightarrow> py_error + string" where
  "assess_severity damages =
     (if damages = [] then Inr ''No damage detected''
      else
        (let total_damages = int (length damages) in
         (case py_truediv (sum_list (map confidence damages)) (real_of_int total_damages) of
            Inl e \<Rightarrow> Inl e
          | Inr avg_confidence \<Rightarrow>
              (let severe_count =
                     sum_list (map (\<lambda>d. (1::int))
                                   (filter (\<lambda>d. type d \<in> set severe_damages) damages))
               in
                 if severe_count \<ge> 3 \<or> total_damages \<ge> 5 then Inr ''Severe''
                 else if severe_count \<ge> 1 \<or> total_damages \<ge> 3 then Inr ''Moderate''
                 else if total_damages \<ge> 1 then Inr ''Minor''
                 else Inr ''No damage''))))"

subsection \<open>\<^verbatim>\<open>generate_report\<close>\<close>

text \<open>
  The body of the counting loop, on the report under construction:
  \<^verbatim>\<open>
  damage_type = damage['type']
  if damage_type not in report['damage_summary']:
      report['damage_summary'][damage_type] = 0
  report['damage_summary'][damage_type] += 1
  \<close>
\<close>

definition count_damage :: "report \<Rightarrow> detection \<Rightarrow> py_error + report" where
  "count_damage rep damage =
     (let damage_type = type damage;
          rep1 = (if \<not> dict_contains damage_type (damage_summary rep)
                  then rep\<lparr>damage_summary := dict_setitem (damage_summary rep) damage_type 0\<rparr>
                  else rep)
      in (case dict_getitem (damage_summary rep1) damage_type of
            Inl e \<Rightarrow> Inl e
          | Inr c \<Rightarrow>
              Inr (rep1\<lparr>damage_summary :=
                          dict_setitem (damage_summary rep1) damage_type (c + 1)\<rparr>)))"

text \<open>\<^verbatim>\<open>for damage in damages: ...\<close> stops at the first exception.\<close>

fun count_damage_types :: "report \<Rightarrow> detection list \<Rightarrow> py_error + report" where
  "count_damage_types rep [] = Inr rep"
| "count_damage_types rep (damage # rest) =
     (case count_damage rep damage of
        Inl e \<Rightarrow> Inl e
      | Inr rep' \<Rightarrow> count_damage_types rep' rest)"

text \<open>
  \<^verbatim>\<open>
  report = {'image': str(image_path), 'total_damages': len(damages),
            'damage_summary': {}, 'detailed_damages': damages,
            'severity_assessment': self.assess_severity(damages)}
  for damage in damages: ...
  return report
  \<close>
  The function takes the store and the address of the list \<^verbatim>\<open>damages\<close>, and returns
  the report together with the store it leaves behind. The field
  \<open>detailed_damages\<close> is the reference it was given, not a copy of the list.
\<close>

definition generate_report :: "store \<Rightarrow> addr \<Rightarrow> string \<Rightarrow> py_error + (report \<times> store)" where
  "generate_report st damages image_path =
     (case assess_severity (st damages) of
        Inl e \<Rightarrow> Inl e
      | Inr severity \<Rightarrow>
          (let rep = \<lparr>image_name = image_path,
                      total_damages = int (length (st damages)),
                      damage_summary = [],
                      detailed_damages = damages,
                      severity_assessment = severity\<rparr>
           in (case count_damage_types rep (st damages) of
                 Inl e \<Rightarrow> Inl e
               | Inr rep' \<Rightarrow> Inr (rep', st))))"

subsection \<open>\<^verbatim>\<open>convert_bbox_to_yolo\<close>\<close>

text \<open>
  \<^verbatim>\<open>
  x_min, y_min, x_max, y_max = bbox
  x_center = (x_min + x_max) / 2.0
  y_center = (y_min + y_max) / 2.0
  width = x_max - x_min
  height = y_max - y_min
  x_center /= img_width
  y_center /= img_height
  width /= img_width
  height /= img_height
  return [x_center, y_center, width, height]
  \<close>
  Unpacking a sequence that does not have four elements raises \<^verbatim>\<open>ValueError\<close>; each
  of the four divisions raises \<^verbatim>\<open>ZeroDivisionError\<close> on a zero divisor. There is no
  other check.
\<close>

definition convert_bbox_to_yolo :: "real list \<Rightarrow> real \<Rightarrow> real \<Rightarrow> py_error + real list" where
  "convert_bbox_to_yolo bbox img_width img_height =
     (case bbox of
        [x_min, y_min, x_max, y_max] \<Rightarrow>
          (let x_center = (x_min + x_max) / 2;
               y_center = (y_min + y_max) / 2;
               width = x_max - x_min;
               height = y_max - y_min
           in (case py_truediv x_center img_width of
                 Inl e \<Rightarrow> Inl e
               | Inr x_center' \<Rightarrow>
               (case py_truediv y_center img_height of
                  Inl e \<Rightarrow> Inl e
                | Inr y_center' \<Rightarrow>
                (case py_truediv width img_width of
                   Inl e \<Rightarrow> Inl e
                 | Inr width' \<Rightarrow>
                 (case py_truediv height img_height of
                    Inl e \<Rightarrow> Inl e
                  | Inr height' \<Rightarrow> Inr [x_center', y_center', width', height'])))))
      | _ \<Rightarrow> Inl ValueError)"

subsection \<open>The specification's vocabulary\<close>

text \<open>
  The definitions of this subsection follow the words of the specification, not the code;
  the theorems below compare the code with them.

  The severity tiers, with the label the code returns for each. The specification's
  \<open>NoDamage\<close> is the string \<^verbatim>\<open>"No damage detected"\<close>.
\<close>

datatype severity = NoDamage | Minor | Moderate | Severe

fun severity_label :: "severity \<Rightarrow> string" where
  "severity_label NoDamage = ''No damage detected''"
| "severity_label Minor = ''Minor''"
| "severity_label Moderate = ''Moderate''"
| "severity_label Severe = ''Severe''"

text \<open>The order of the tiers: \<open>NoDamage < Minor < Moderate < Severe\<close>.\<close>

fun severity_rank :: "severity \<Rightarrow> nat" where
  "severity_rank NoDamage = 0"
| "severity_rank Minor = 1"
| "severity_rank Moderate = 2"
| "severity_rank Severe = 3"

text \<open>
  The number of detections whose type is one of \<open>broken_part\<close>, \<open>glass_damage\<close>,
  \<open>crack\<close>.
\<close>

definition severe_count :: "detection list \<Rightarrow> nat" where
  "severe_count ds =
     length (filter (\<lambda>d. type d \<in> {''broken_part'', ''glass_damage'', ''crack''}) ds)"

text \<open>
  The ordered rules of the specification, first match wins; \<open>None\<close> when no rule
  applies.
\<close>

definition severity_rules :: "nat \<Rightarrow> nat \<Rightarrow> severity option" where
  "severity_rules severe total_count =
     (if total_count = 0 then Some NoDamage
      else if severe \<ge> 3 \<or> total_count \<ge> 5 then Some Severe
      else if severe \<ge> 1 \<or> total_count \<ge> 3 then Some Moderate
      else if total_count \<ge> 1 then Some Minor
      else None)"

text \<open>The tiers by total count alone: 0, 1 to 2, 3 to 4, 5 and more.\<close>

definition total_tier :: "nat \<Rightarrow> severity" where
  "total_tier total_count =
     (if total_count = 0 then NoDamage
      else if total_count \<in> {1, 2} then Minor
      else if total_count \<in> {3, 4} then Moderate
      else Severe)"

text \<open>The number of detections that carry the type \<open>t\<close>.\<close>

definition type_count :: "string \<Rightarrow> detection list \<Rightarrow> nat" where
  "type_count t ds = length (filter (\<lambda>d. type d = t) ds)"


section \<open>Severity assessment\<close>

lemma sum_ones_length: "sum_list (map (\<lambda>d. (1::int)) xs) = int (length xs)"
  by (induction xs) simp_all

lemma severe_filter_count:
  "sum_list (map (\<lambda>d. (1::int)) (filter (\<lambda>d. type d \<in> set severe_damages) ds)) =
     int (severe_count ds)"
  by (simp add: sum_ones_length severe_count_def severe_damages_def)

text \<open>After the guard for the empty list the division for the average cannot raise.\<close>

lemma avg_confidence_defined:
  "ds \<noteq> [] \<Longrightarrow> py_truediv x (real (length ds)) = Inr (x / real (length ds))"
  by (simp add: py_truediv_def)

text \<open>The last branch, \<^verbatim>\<open>"No damage"\<close>, is never taken.\<close>

lemma assess_severity_counts:
  "assess_severity ds =
     Inr (if length ds = 0 then ''No damage detected''
          else if 3 \<le> severe_count ds \<or> 5 \<le> length ds then ''Severe''
          else if 1 \<le> severe_count ds \<or> 3 \<le> length ds then ''Moderate''
          else ''Minor'')"
proof (cases "ds = []")
  case True
  then show ?thesis by (simp add: assess_severity_def)
next
  case False
  then have "1 \<le> length ds" by (cases ds) simp_all
  with False show ?thesis
    unfolding assess_severity_def
    by (simp add: avg_confidence_defined severe_filter_count Let_def)
qed

lemma assess_severity_defined: "\<exists>sev. assess_severity ds = Inr sev"
  by (simp add: assess_severity_counts)

text \<open>
  Claim C1. For every detection list, \<open>assess_severity\<close> returns the tier chosen by the
  ordered rules, first match wins: the empty list gives \<open>NoDamage\<close>; otherwise, with
  the severe count and the total, severe count at least 3 or total at least 5 gives
  \<open>Severe\<close>, else severe count at least 1 or total at least 3 gives \<open>Moderate\<close>, else
  \<open>Minor\<close>. Some rule always applies.
\<close>

theorem assess_severity_ordered_rules:
  "\<exists>s. severity_rules (severe_count ds) (length ds) = Some s \<and>
       assess_severity ds = Inr (severity_label s)"
proof (cases ds)
  case Nil
  then show ?thesis by (simp add: assess_severity_counts severity_rules_def)
next
  case (Cons d rest)
  then have "ds \<noteq> []" and "1 \<le> length ds" by simp_all
  then show ?thesis by (auto simp add: assess_severity_counts severity_rules_def)
qed

text \<open>
  One detection of type \<open>crack\<close> gives \<open>Moderate\<close>, three of them give \<open>Severe\<close>.
\<close>

theorem assess_severity_ordered_rules_witness:
  "assess_severity [
      \<lparr>type = ''crack'', confidence = 9/10, bbox_px = [0, 0, 10, 10], bbox_formatted = (0, 0, 10, 10)\<rparr>] = Inr ''Moderate'' \<and>
   assess_severity (replicate 3
       \<lparr>type = ''crack'', confidence = 9/10, bbox_px = [0, 0, 10, 10], bbox_formatted = (0, 0, 10, 10)\<rparr>) = Inr ''Severe''"
  using assess_severity_ordered_rules [of "[
      \<lparr>type = ''crack'', confidence = 9/10, bbox_px = [0, 0, 10, 10], bbox_formatted = (0, 0, 10, 10)\<rparr>]"]
    assess_severity_ordered_rules [of "replicate 3
        \<lparr>type = ''crack'', confidence = 9/10, bbox_px = [0, 0, 10, 10], bbox_formatted = (0, 0, 10, 10)\<rparr>"]
  by (simp add: severity_rules_def severe_count_def)

lemma total_tier_mono:
  "m \<le> n \<Longrightarrow> severity_rank (total_tier m) \<le> severity_rank (total_tier n)"
  by (auto simp add: total_tier_def)

lemma assess_severity_tier:
  assumes "severe_count ds = 0"
  shows "assess_severity ds = Inr (severity_label (total_tier (length ds)))"
proof -
  consider "length ds = 0" | "length ds = 1" | "length ds = 2" | "length ds = 3"
    | "length ds = 4" | "5 \<le> length ds"
    by linarith
  then show ?thesis
    using assms by cases (simp_all add: assess_severity_counts total_tier_def)
qed

text \<open>
  Claim C7. For detection lists without a severe type, the severity is the tier of the
  total count (0 gives \<open>NoDamage\<close>, 1 or 2 \<open>Minor\<close>, 3 or 4 \<open>Moderate\<close>, 5 and more
  \<open>Severe\<close>), and a list that is at least as long gets a tier that is at least as
  high.
\<close>

theorem severity_tiers_without_severe_types:
  assumes "severe_count ds = 0" and "severe_count ds' = 0" and "length ds \<le> length ds'"
  shows "assess_severity ds = Inr (severity_label (total_tier (length ds))) \<and>
         assess_severity ds' = Inr (severity_label (total_tier (length ds'))) \<and>
         severity_rank (total_tier (length ds)) \<le> severity_rank (total_tier (length ds'))"
  using assms by (simp add: assess_severity_tier total_tier_mono)

theorem severity_tiers_without_severe_types_witness:
  "assess_severity [
      \<lparr>type = ''dent'', confidence = 4/5, bbox_px = [1, 2, 30, 40], bbox_formatted = (1, 2, 30, 40)\<rparr>] = Inr ''Minor'' \<and>
   assess_severity [
       \<lparr>type = ''dent'', confidence = 4/5, bbox_px = [1, 2, 30, 40], bbox_formatted = (1, 2, 30, 40)\<rparr>,
       \<lparr>type = ''scratch'', confidence = 3/5, bbox_px = [5, 5, 9, 9], bbox_formatted = (5, 5, 9, 9)\<rparr>,
       \<lparr>type = ''unknown_12'', confidence = 1/2, bbox_px = [0, 0, 2, 2], bbox_formatted = (0, 0, 2, 2)\<rparr>] = Inr ''Moderate'' \<and>
   severity_rank (total_tier 1) \<le> severity_rank (total_tier 3)"
  using severity_tiers_without_severe_types [of "[
      \<lparr>type = ''dent'', confidence = 4/5, bbox_px = [1, 2, 30, 40], bbox_formatted = (1, 2, 30, 40)\<rparr>]" "[
      \<lparr>type = ''dent'', confidence = 4/5, bbox_px = [1, 2, 30, 40], bbox_formatted = (1, 2, 30, 40)\<rparr>,
      \<lparr>type = ''scratch'', confidence = 3/5, bbox_px = [5, 5, 9, 9], bbox_formatted = (5, 5, 9, 9)\<rparr>,
      \<lparr>type = ''unknown_12'', confidence = 1/2, bbox_px = [0, 0, 2, 2], bbox_formatted = (0, 0, 2, 2)\<rparr>]"]
  by (simp add: severe_count_def total_tier_def)

text \<open>
  Claim C9. The severity depends only on the total number of detections and on the
  number of detections of a severe type: two lists that agree on both counts get the
  same severity, whatever their confidences, bounding boxes and other types are. This
  holds for all lists, so in particular for non-empty ones.
\<close>

theorem severity_depends_on_counts_only:
  assumes "length ds = length ds'" and "severe_count ds = severe_count ds'"
  shows "assess_severity ds = assess_severity ds'"
  using assms by (auto simp add: assess_severity_counts)

theorem severity_depends_on_counts_only_witness:
  "assess_severity [
      \<lparr>type = ''crack'', confidence = 9/10, bbox_px = [0, 0, 10, 10], bbox_formatted = (0, 0, 10, 10)\<rparr>,
      \<lparr>type = ''dent'', confidence = 4/5, bbox_px = [1, 2, 30, 40], bbox_formatted = (1, 2, 30, 40)\<rparr>] = assess_severity [
      \<lparr>type = ''rust'', confidence = 1/10, bbox_px = [7, 7, 8, 8], bbox_formatted = (7, 7, 8, 8)\<rparr>,
      \<lparr>type = ''glass_damage'', confidence = 1/5, bbox_px = [20, 10, 40, 90], bbox_formatted = (20, 10, 40, 90)\<rparr>]"
  using severity_depends_on_counts_only [of "[
      \<lparr>type = ''crack'', confidence = 9/10, bbox_px = [0, 0, 10, 10], bbox_formatted = (0, 0, 10, 10)\<rparr>,
      \<lparr>type = ''dent'', confidence = 4/5, bbox_px = [1, 2, 30, 40], bbox_formatted = (1, 2, 30, 40)\<rparr>]" "[
      \<lparr>type = ''rust'', confidence = 1/10, bbox_px = [7, 7, 8, 8], bbox_formatted = (7, 7, 8, 8)\<rparr>,
      \<lparr>type = ''glass_damage'', confidence = 1/5, bbox_px = [20, 10, 40, 90], bbox_formatted = (20, 10, 40, 90)\<rparr>]"]
  by (simp add: severe_count_def)

section \<open>The damage report\<close>

subsection \<open>The counting loop\<close>

lemma dict_contains_map_of: "dict_contains k d \<longleftrightarrow> map_of d k \<noteq> None"
  by (simp add: dict_contains_def map_of_eq_None_iff)

text \<open>
  One pass of the loop body never raises: the key is present when it is read. It sets the
  count of the detection's type to one more than before, or to 1 for a new type.
\<close>

lemma count_damage_eq:
  "count_damage rep d =
     Inr (rep\<lparr>damage_summary :=
                AList.update (type d)
                  (case map_of (damage_summary rep) (type d) of None \<Rightarrow> 1 | Some c \<Rightarrow> c + 1)
                  (damage_summary rep)\<rparr>)"
proof (cases "map_of (damage_summary rep) (type d)")
  case None
  then show ?thesis
    by (simp add: count_damage_def dict_contains_map_of dict_getitem_def dict_setitem_def
        AList.update_conv')
next
  case (Some c)
  then show ?thesis
    by (simp add: count_damage_def dict_contains_map_of dict_getitem_def dict_setitem_def)
qed

lemma sum_snd_update:
  "sum_list (map snd (AList.update k v al)) =
     sum_list (map snd al) + v - (case map_of al k of None \<Rightarrow> 0 | Some c \<Rightarrow> (c::int))"
  by (induction al) auto

lemma count_damage_types_defined: "\<exists>rep'. count_damage_types rep ds = Inr rep'"
  by (induction ds arbitrary: rep) (simp_all add: count_damage_eq)

lemma count_damage_types_fields:
  "count_damage_types rep ds = Inr rep' \<Longrightarrow>
     image_name rep' = image_name rep \<and> total_damages rep' = total_damages rep \<and>
     detailed_damages rep' = detailed_damages rep \<and>
     severity_assessment rep' = severity_assessment rep"
  by (induction ds arbitrary: rep) (auto simp add: count_damage_eq)

lemma count_damage_types_distinct:
  "count_damage_types rep ds = Inr rep' \<Longrightarrow> distinct (map fst (damage_summary rep)) \<Longrightarrow>
     distinct (map fst (damage_summary rep'))"
  by (induction ds arbitrary: rep) (auto simp add: count_damage_eq AList.distinct_update)

lemma count_damage_types_sum:
  "count_damage_types rep ds = Inr rep' \<Longrightarrow>
     sum_list (map snd (damage_summary rep')) =
       sum_list (map snd (damage_summary rep)) + int (length ds)"
  by (induction ds arbitrary: rep)
     (auto simp add: count_damage_eq sum_snd_update split: option.splits)

lemma count_damage_types_lookup:
  "count_damage_types rep ds = Inr rep' \<Longrightarrow>
     map_of (damage_summary rep') t =
       (if type_count t ds = 0 then map_of (damage_summary rep) t
        else Some ((case map_of (damage_summary rep) t of None \<Rightarrow> 0 | Some c \<Rightarrow> c) +
                   int (type_count t ds)))"
  by (induction ds arbitrary: rep)
     (auto simp add: count_damage_eq type_count_def AList.update_conv' split: option.splits)

subsection \<open>The report\<close>

text \<open>
  \<open>generate_report\<close> always returns: the severity is defined, the loop runs to its end
  on the freshly built report, and the store is handed back as it was.
\<close>

lemma generate_report_loop:
  "\<exists>sev rep. assess_severity (st damages) = Inr sev \<and>
     count_damage_types \<lparr>image_name = image_path,
               total_damages = int (length (st damages)), damage_summary = [],
               detailed_damages = damages, severity_assessment = sev\<rparr>
       (st damages) = Inr rep \<and>
     generate_report st damages image_path = Inr (rep, st)"
proof -
  obtain sev where sev: "assess_severity (st damages) = Inr sev"
    using assess_severity_defined by blast
  obtain rep where rep:
    "count_damage_types \<lparr>image_name = image_path,
               total_damages = int (length (st damages)), damage_summary = [],
               detailed_damages = damages, severity_assessment = sev\<rparr>
       (st damages) = Inr rep"
    using count_damage_types_defined by blast
  from sev rep have "generate_report st damages image_path = Inr (rep, st)"
    by (simp add: generate_report_def)
  with sev rep show ?thesis by blast
qed

text \<open>
  Claim C5. The summary of the report maps every type to the exact number of detections
  of that type, and a type that no detection carries has no entry; every key occurs once.
\<close>

theorem damage_summary_counts_types:
  "\<exists>rep. generate_report st damages image_path = Inr (rep, st) \<and>
     distinct (map fst (damage_summary rep)) \<and>
     (\<forall>t. map_of (damage_summary rep) t =
            (if type_count t (st damages) = 0 then None
             else Some (int (type_count t (st damages)))))"
proof -
  obtain sev rep where
    loop: "count_damage_types \<lparr>image_name = image_path,
               total_damages = int (length (st damages)), damage_summary = [],
               detailed_damages = damages, severity_assessment = sev\<rparr>
             (st damages) = Inr rep"
    and gen: "generate_report st damages image_path = Inr (rep, st)"
    using generate_report_loop by blast
  have "distinct (map fst (damage_summary rep))"
    using count_damage_types_distinct [OF loop] by simp
  moreover have "map_of (damage_summary rep) t =
            (if type_count t (st damages) = 0 then None
             else Some (int (type_count t (st damages))))" for t
    using count_damage_types_lookup [OF loop, of t] by simp
  ultimately show ?thesis using gen by blast
qed

text \<open>
  For the types \<open>dent\<close>, \<open>dent\<close>, \<open>scratch\<close> the summary has \<open>dent\<close> at 2,
  \<open>scratch\<close> at 1 and no key \<open>rust\<close>.
\<close>

theorem damage_summary_counts_types_witness:
  "\<exists>rep. generate_report (\<lambda>a. [
      \<lparr>type = ''dent'', confidence = 4/5, bbox_px = [1, 2, 30, 40], bbox_formatted = (1, 2, 30, 40)\<rparr>,
      \<lparr>type = ''dent'', confidence = 7/10, bbox_px = [50, 60, 70, 80], bbox_formatted = (50, 60, 70, 80)\<rparr>,
      \<lparr>type = ''scratch'', confidence = 3/5, bbox_px = [5, 5, 9, 9], bbox_formatted = (5, 5, 9, 9)\<rparr>]) 0 ''car.jpg'' =
       Inr (rep, \<lambda>a. [
           \<lparr>type = ''dent'', confidence = 4/5, bbox_px = [1, 2, 30, 40], bbox_formatted = (1, 2, 30, 40)\<rparr>,
           \<lparr>type = ''dent'', confidence = 7/10, bbox_px = [50, 60, 70, 80], bbox_formatted = (50, 60, 70, 80)\<rparr>,
           \<lparr>type = ''scratch'', confidence = 3/5, bbox_px = [5, 5, 9, 9], bbox_formatted = (5, 5, 9, 9)\<rparr>]) \<and>
     map_of (damage_summary rep) ''dent'' = Some 2 \<and>
     map_of (damage_summary rep) ''scratch'' = Some 1 \<and>
     map_of (damage_summary rep) ''rust'' = None"
  using damage_summary_counts_types [of "\<lambda>a. [
      \<lparr>type = ''dent'', confidence = 4/5, bbox_px = [1, 2, 30, 40], bbox_formatted = (1, 2, 30, 40)\<rparr>,
      \<lparr>type = ''dent'', confidence = 7/10, bbox_px = [50, 60, 70, 80], bbox_formatted = (50, 60, 70, 80)\<rparr>,
      \<lparr>type = ''scratch'', confidence = 3/5, bbox_px = [5, 5, 9, 9], bbox_formatted = (5, 5, 9, 9)\<rparr>]" 0 "''car.jpg''"]
  by (auto simp add: type_count_def)

text \<open>
  Claim C6. Neither function raises: \<open>assess_severity\<close> returns a severity for every
  detection list and \<open>generate_report\<close> returns a report for every store and list,
  unknown types included. For the empty list the report has no damages, an empty summary
  and the severity \<open>NoDamage\<close>.
\<close>

theorem generate_report_never_fails:
  "(\<exists>sev. assess_severity ds = Inr sev) \<and>
   (\<exists>rep. generate_report st damages image_path = Inr (rep, st)) \<and>
   (st damages = [] \<longrightarrow>
      generate_report st damages image_path =
        Inr (\<lparr>image_name = image_path, total_damages = 0, damage_summary = [],
              detailed_damages = damages,
              severity_assessment = severity_label NoDamage\<rparr>, st))"
proof -
  have "\<exists>rep. generate_report st damages image_path = Inr (rep, st)"
    using generate_report_loop by blast
  moreover have "st damages = [] \<Longrightarrow>
      generate_report st damages image_path =
        Inr (\<lparr>image_name = image_path, total_damages = 0, damage_summary = [],
              detailed_damages = damages,
              severity_assessment = severity_label NoDamage\<rparr>, st)"
    by (simp add: generate_report_def assess_severity_def)
  ultimately show ?thesis using assess_severity_defined by blast
qed

theorem generate_report_never_fails_witness:
  "generate_report (\<lambda>a. []) 0 ''car.jpg'' =
     Inr (\<lparr>image_name = ''car.jpg'', total_damages = 0, damage_summary = [],
           detailed_damages = 0, severity_assessment = ''No damage detected''\<rparr>, \<lambda>a. []) \<and>
   (\<exists>sev. assess_severity [
       \<lparr>type = ''unknown_12'', confidence = 1/2, bbox_px = [0, 0, 2, 2], bbox_formatted = (0, 0, 2, 2)\<rparr>] = Inr sev)"
  using generate_report_never_fails [of "[
      \<lparr>type = ''unknown_12'', confidence = 1/2, bbox_px = [0, 0, 2, 2], bbox_formatted = (0, 0, 2, 2)\<rparr>]" "\<lambda>a. []" 0 "''car.jpg''"]
  by simp



text \<open>
  Claim C10. In every report the counts of the summary add up to \<open>total_damages\<close>,
  which is the length of the detections the report refers to and the length of the input.
\<close>

theorem report_totals_agree:
  "\<exists>rep. generate_report st damages image_path = Inr (rep, st) \<and>
     sum_list (map snd (damage_summary rep)) = total_damages rep \<and>
     total_damages rep = int (length (st (detailed_damages rep))) \<and>
     total_damages rep = int (length (st damages))"
proof -
  obtain sev rep where
    loop: "count_damage_types \<lparr>image_name = image_path,
               total_damages = int (length (st damages)), damage_summary = [],
               detailed_damages = damages, severity_assessment = sev\<rparr>
             (st damages) = Inr rep"
    and gen: "generate_report st damages image_path = Inr (rep, st)"
    using generate_report_loop by blast
  have "sum_list (map snd (damage_summary rep)) = int (length (st damages))"
    using count_damage_types_sum [OF loop] by simp
  moreover have "total_damages rep = int (length (st damages))"
    and "detailed_damages rep = damages"
    using count_damage_types_fields [OF loop] by simp_all
  ultimately show ?thesis using gen by simp
qed

theorem report_totals_agree_witness:
  "\<exists>rep. generate_report (\<lambda>a. [
      \<lparr>type = ''rust'', confidence = 1/10, bbox_px = [7, 7, 8, 8], bbox_formatted = (7, 7, 8, 8)\<rparr>,
      \<lparr>type = ''glass_damage'', confidence = 1/5, bbox_px = [20, 10, 40, 90], bbox_formatted = (20, 10, 40, 90)\<rparr>,
      \<lparr>type = ''rust'', confidence = 1/10, bbox_px = [7, 7, 8, 8], bbox_formatted = (7, 7, 8, 8)\<rparr>]) 0 ''car.jpg'' =
       Inr (rep, \<lambda>a. [
           \<lparr>type = ''rust'', confidence = 1/10, bbox_px = [7, 7, 8, 8], bbox_formatted = (7, 7, 8, 8)\<rparr>,
           \<lparr>type = ''glass_damage'', confidence = 1/5, bbox_px = [20, 10, 40, 90], bbox_formatted = (20, 10, 40, 90)\<rparr>,
           \<lparr>type = ''rust'', confidence = 1/10, bbox_px = [7, 7, 8, 8], bbox_formatted = (7, 7, 8, 8)\<rparr>]) \<and>
     sum_list (map snd (damage_summary rep)) = 3 \<and> total_damages rep = 3"
  using report_totals_agree [of "\<lambda>a. [
      \<lparr>type = ''rust'', confidence = 1/10, bbox_px = [7, 7, 8, 8], bbox_formatted = (7, 7, 8, 8)\<rparr>,
      \<lparr>type = ''glass_damage'', confidence = 1/5, bbox_px = [20, 10, 40, 90], bbox_formatted = (20, 10, 40, 90)\<rparr>,
      \<lparr>type = ''rust'', confidence = 1/10, bbox_px = [7, 7, 8, 8], bbox_formatted = (7, 7, 8, 8)\<rparr>]" 0 "''car.jpg''"]
  by auto

section \<open>Bounding-box conversion\<close>

text \<open>
  On a box of four coordinates the conversion raises exactly when a dimension is zero,
  and otherwise returns the four quotients.
\<close>

lemma convert_bbox_to_yolo_eq:
  "convert_bbox_to_yolo [x1, y1, x2, y2] W H =
     (if W = 0 \<or> H = 0 then Inl ZeroDivisionError
      else Inr [((x1 + x2) / 2) / W, ((y1 + y2) / 2) / H, (x2 - x1) / W, (y2 - y1) / H])"
  by (simp add: convert_bbox_to_yolo_def py_truediv_def)






text \<open>
  The conversion loses nothing: for non-zero dimensions two boxes with the same result
  are the same box.
\<close>

lemma convert_bbox_to_yolo_inj:
  assumes "W \<noteq> 0" and "H \<noteq> 0"
    and "convert_bbox_to_yolo [x1, y1, x2, y2] W H = convert_bbox_to_yolo [u1, v1, u2, v2] W H"
  shows "[x1, y1, x2, y2] = [u1, v1, u2, v2]"
proof -
  from assms have "x1 + x2 = u1 + u2" and "y1 + y2 = v1 + v2"
    and "x2 - x1 = u2 - u1" and "y2 - y1 = v2 - v1"
    by (simp_all add: convert_bbox_to_yolo_eq)
  then show ?thesis by simp
qed



end
